theory Spec2Isabelle
  imports Main
begin

section \<open>The Intent object model\<close>

text \<open>
  The builder in \<^verbatim>\<open>src/dfcx_scrapi/builders/intent.py\<close> assembles one
  \<^verbatim>\<open>types.Intent\<close> message. The message classes themselves belong to the
  client library the module imports; only their shape is needed here.

  Modelled from the spec: the Intent, TrainingPhrase, Part and Parameter classes of the
  imported client library, with the fields of section 3 (DATA MODEL) of the specification.
  The field \<^verbatim>\<open>text\<close> of a Part is \<open>part_text\<close> and the field \<^verbatim>\<open>id\<close> of a
  Parameter is \<open>param_id\<close> (both names are taken in Isabelle). The label mapping is an
  association list read through \<open>map_of\<close>.
\<close>

record part =
  part_text :: string
  parameter_id :: string

record training_phrase =
  parts :: "part list"
  repeat_count :: int

record parameter =
  param_id :: string
  entity_type :: string
  is_list :: bool
  redact :: bool

record intent =
  display_name :: string
  priority :: int
  is_fallback :: bool
  description :: "string option"
  training_phrases :: "training_phrase list"
  parameters :: "parameter list"
  labels :: "(string \<times> string) list"

text \<open>
  \<^verbatim>\<open>types.Intent()\<close> with no argument: every field at its default.
\<close>

definition default_intent :: intent where
  "default_intent =
     \<lparr>display_name = [], priority = 0, is_fallback = False, description = None,
      training_phrases = [], parameters = [], labels = []\<rparr>"

text \<open>
  The truth value Python gives a message object in \<^verbatim>\<open>not self.proto_obj\<close>.
  It is not defined in this repository either: the client library's message class
  defines it as "some field is set", so a message with every field at its default
  is falsy and every other one is truthy.
\<close>

definition intent_bool :: "intent \<Rightarrow> bool" where
  "intent_bool obj \<longleftrightarrow>
     display_name obj \<noteq> [] \<or> priority obj \<noteq> 0 \<or> is_fallback obj \<or>
     (description obj \<noteq> None \<and> description obj \<noteq> Some []) \<or>
     training_phrases obj \<noteq> [] \<or> parameters obj \<noteq> [] \<or> labels obj \<noteq> []"

section \<open>Python values, exceptions, dictionaries and sets\<close>

text \<open>
  The elements of the \<^verbatim>\<open>phrase\<close> and \<^verbatim>\<open>annotations\<close> lists are tested
  with \<^verbatim>\<open>isinstance(p, str)\<close>, so they are values that may or may not be strings.
\<close>

datatype pyval = PyStr string | PyInt int | PyNone

fun isinstance_str :: "pyval \<Rightarrow> bool" where
  "isinstance_str (PyStr s) = True"
| "isinstance_str _ = False"

text \<open>Every exception the module can raise, with its message (or the missing name).\<close>

datatype error =
    AttributeError string
  | ValueError string
  | IndexError string
  | TypeError string
  | KeyError string
  | Exception string

text \<open>
  \<^verbatim>\<open>d[k] = v\<close> on a dictionary held as an association list: an existing key keeps
  its place and takes the new value, a new key goes to the end.
\<close>

fun dict_set :: "'k \<Rightarrow> 'v \<Rightarrow> ('k \<times> 'v) list \<Rightarrow> ('k \<times> 'v) list" where
  "dict_set k v [] = [(k, v)]"
| "dict_set k v ((k', v') # d) = (if k' = k then (k, v) # d else (k', v') # dict_set k v d)"

text \<open>\<^verbatim>\<open>d.update(other)\<close>: every item of \<open>other\<close> is stored in turn.\<close>

fun dict_update :: "('k \<times> 'v) list \<Rightarrow> ('k \<times> 'v) list \<Rightarrow> ('k \<times> 'v) list" where
  "dict_update d [] = d"
| "dict_update d ((k, v) # other) = dict_update (dict_set k v d) other"

text \<open>
  A Python set as a list without repetition: \<^verbatim>\<open>s.add(x)\<close> and
  \<^verbatim>\<open>s.remove(x)\<close>, the latter raising \<^verbatim>\<open>KeyError\<close> on a missing element.
\<close>

definition set_add :: "'a \<Rightarrow> 'a list \<Rightarrow> 'a list" where
  "set_add x s = (if x \<in> set s then s else s @ [x])"

definition set_remove :: "string \<Rightarrow> string list \<Rightarrow> error + string list" where
  "set_remove x s = (if x \<in> set s then Inr (removeAll x s) else Inl (KeyError x))"

section \<open>The module-level function build_intent\<close>

text \<open>
  An element of the \<^verbatim>\<open>phrases\<close> argument: a plain string, as the annotation
  \<^verbatim>\<open>List[str]\<close> says, or a mapping, as \<^verbatim>\<open>row["text"]\<close> needs.
\<close>

datatype 'v row = RowStr string | RowMap "(string \<times> 'v) list"

text \<open>\<^verbatim>\<open>row[key]\<close> with a string key.\<close>

fun getitem :: "'v row \<Rightarrow> string \<Rightarrow> error + 'v" where
  "getitem (RowStr s) key = Inl (TypeError ''string indices must be integers'')"
| "getitem (RowMap m) key =
     (case map_of m key of None \<Rightarrow> Inl (KeyError key) | Some v \<Rightarrow> Inr v)"

text \<open>
  The comprehension \<^verbatim>\<open>{"text": row["text"] for row in phrases}\<close>: the rows are
  visited in order and each one stores its value under the same key \<^verbatim>\<open>"text"\<close>.
\<close>

fun tps_comprehension :: "'v row list \<Rightarrow> (string \<times> 'v) list \<Rightarrow> error + (string \<times> 'v) list" where
  "tps_comprehension [] tps = Inr tps"
| "tps_comprehension (row # phrases) tps =
     (case getitem row ''text'' of
        Inl e \<Rightarrow> Inl e
      | Inr v \<Rightarrow> tps_comprehension phrases (dict_set ''text'' v tps))"

text \<open>The values of the returned dictionary: the display name, or the inner dictionary.\<close>

datatype ('d, 'v) dval = Scalar 'd | Dict "(string \<times> 'v) list"

text \<open>
  \<^verbatim>\<open>build_intent(display_name, phrases)\<close>. The call of \<^verbatim>\<open>logging.info\<close>
  does not touch the result and is left out.
\<close>

definition build_intent :: "'d \<Rightarrow> 'v row list \<Rightarrow> error + (string \<times> ('d, 'v) dval) list" where
  "build_intent dname phrases =
     (case tps_comprehension phrases [] of
        Inl e \<Rightarrow> Inl e
      | Inr tps \<Rightarrow> Inr [(''display_name'', Scalar dname), (''training_phrases'', Dict tps)])"

section \<open>The class IntentBuilder\<close>

text \<open>
  The only attribute of a builder is \<^verbatim>\<open>proto_obj\<close>. \<open>None\<close> stands for an
  attribute that was never assigned: \<^verbatim>\<open>__init__\<close> is \<^verbatim>\<open>pass\<close>, so that is
  the state of \<^verbatim>\<open>IntentBuilder()\<close>.
\<close>

record builder =
  proto_obj :: "intent option"

definition init :: builder where
  "init = \<lparr>proto_obj = None\<rparr>"

text \<open>Reading \<^verbatim>\<open>self.proto_obj\<close>: an unassigned attribute raises.\<close>

definition get_proto_obj :: "builder \<Rightarrow> error + intent" where
  "get_proto_obj b =
     (case proto_obj b of None \<Rightarrow> Inl (AttributeError ''proto_obj'') | Some obj \<Rightarrow> Inr obj)"

definition no_proto_obj :: error where
  "no_proto_obj = ValueError ''There is no proto_obj! Create or load one to continue.''"

text \<open>\<^verbatim>\<open>_check_intent_exist\<close>: \<^verbatim>\<open>if not self.proto_obj: raise ValueError(...)\<close>.\<close>

definition check_intent_exist :: "builder \<Rightarrow> error + unit" where
  "check_intent_exist b =
     (case get_proto_obj b of
        Inl e \<Rightarrow> Inl e
      | Inr obj \<Rightarrow> if \<not> intent_bool obj then Inl no_proto_obj else Inr ())"

text \<open>
  \<^verbatim>\<open>load_intent\<close> and \<^verbatim>\<open>create_empty_intent\<close>: both assign the attribute.
  The arguments of \<^verbatim>\<open>create_empty_intent\<close> are taken to be ones the Intent
  constructor accepts.
\<close>

definition load_intent :: "intent \<Rightarrow> builder \<Rightarrow> intent \<times> builder" where
  "load_intent obj b = (obj, b\<lparr>proto_obj := Some obj\<rparr>)"

definition create_empty_intent ::
  "string \<Rightarrow> int \<Rightarrow> bool \<Rightarrow> string option \<Rightarrow> builder \<Rightarrow> intent \<times> builder" where
  "create_empty_intent dname prio fallback descr b =
     (let obj = default_intent\<lparr>display_name := dname, priority := prio,
                               is_fallback := fallback, description := descr\<rparr>
      in (obj, b\<lparr>proto_obj := Some obj\<rparr>))"

text \<open>The defaults of the optional arguments.\<close>

definition default_priority :: int where
  "default_priority = 500000"

definition default_repeat_count :: int where
  "default_repeat_count = 1"

subsection \<open>add_training_phrase\<close>

text \<open>
  The two list arguments are mutable objects of the caller, and
  \<^verbatim>\<open>annotations.extend\<close> writes into one of them. They are therefore addresses
  into a store of lists; the call returns the store it leaves behind.
\<close>

type_synonym store = "nat \<Rightarrow> pyval list"

text \<open>
  The loop over \<^verbatim>\<open>zip(phrase, annotations)\<close> appending one Part per pair. The
  Part constructor takes strings only.
\<close>

fun parts_loop :: "(pyval \<times> pyval) list \<Rightarrow> part list \<Rightarrow> error + part list" where
  "parts_loop [] parts_list = Inr parts_list"
| "parts_loop ((PyStr t, PyStr p) # rest) parts_list =
     parts_loop rest (parts_list @ [\<lparr>part_text = t, parameter_id = p\<rparr>])"
| "parts_loop (_ # rest) parts_list = Inl (TypeError ''Part fields must be str'')"

text \<open>
  The constructor \<^verbatim>\<open>types.Intent.TrainingPhrase(parts=..., repeat_count=...)\<close> of the
  client library. Its \<^verbatim>\<open>repeat_count\<close> is a 32-bit signed field: a value outside
  that range is refused with a \<^verbatim>\<open>ValueError\<close> (the text of the message is the
  library's and is cut short here).
\<close>

definition int32 :: "int \<Rightarrow> bool" where
  "int32 n \<longleftrightarrow> - 2147483648 \<le> n \<and> n \<le> 2147483647"

definition TrainingPhrase :: "part list \<Rightarrow> int \<Rightarrow> error + training_phrase" where
  "TrainingPhrase parts_list rc =
     (if int32 rc then Inr \<lparr>parts = parts_list, repeat_count = rc\<rparr>
      else Inl (ValueError ''Value out of range''))"

definition add_training_phrase ::
  "nat \<Rightarrow> nat \<Rightarrow> int \<Rightarrow> builder \<Rightarrow> store \<Rightarrow> (error + intent) \<times> builder \<times> store" where
  "add_training_phrase phrase annotations rc b s =
     (case check_intent_exist b of
        Inl e \<Rightarrow> (Inl e, b, s)
      | Inr _ \<Rightarrow>
          if \<not> (list_all isinstance_str (s phrase) \<and> list_all isinstance_str (s annotations))
          then (Inl (ValueError ''Only strings allowed in phrase or annotations list''), b, s)
          else if length (s annotations) > length (s phrase)
          then (Inl (IndexError ''Length of annotations list is more than phrase list!''), b, s)
          else
            let s' = s(annotations := s annotations @
                         replicate (length (s phrase) - length (s annotations)) (PyStr []))
            in (case parts_loop (zip (s' phrase) (s' annotations)) [] of
                  Inl e \<Rightarrow> (Inl e, b, s')
                | Inr parts_list \<Rightarrow>
                    (case TrainingPhrase parts_list rc of
                       Inl e \<Rightarrow> (Inl e, b, s')
                     | Inr tp \<Rightarrow>
                         (case get_proto_obj b of
                            Inl e \<Rightarrow> (Inl e, b, s')
                          | Inr obj \<Rightarrow>
                              let obj' = obj\<lparr>training_phrases := training_phrases obj @ [tp]\<rparr>
                              in (Inr obj', b\<lparr>proto_obj := Some obj'\<rparr>, s')))))"

subsection \<open>add_parameter and add_label\<close>

definition add_parameter ::
  "string \<Rightarrow> string \<Rightarrow> bool \<Rightarrow> bool \<Rightarrow> builder \<Rightarrow> (error + intent) \<times> builder" where
  "add_parameter pid etype lst red b =
     (case check_intent_exist b of
        Inl e \<Rightarrow> (Inl e, b)
      | Inr _ \<Rightarrow>
          let param = \<lparr>param_id = pid, entity_type = etype, is_list = lst, redact = red\<rparr>
          in (case get_proto_obj b of
                Inl e \<Rightarrow> (Inl e, b)
              | Inr obj \<Rightarrow>
                  let obj' = obj\<lparr>parameters := parameters obj @ [param]\<rparr>
                  in (Inr obj', b\<lparr>proto_obj := Some obj'\<rparr>)))"

text \<open>
  The \<^verbatim>\<open>labels\<close> argument: a list of strings, a dictionary from strings to
  strings (its items in order), or an object of any other class, of which only the
  truth value matters.
\<close>

datatype labels_arg =
    LabelsList "string list"
  | LabelsDict "(string \<times> string) list"
  | LabelsOther bool

fun labels_bool :: "labels_arg \<Rightarrow> bool" where
  "labels_bool (LabelsList xs) = (xs \<noteq> [])"
| "labels_bool (LabelsDict d) = (d \<noteq> [])"
| "labels_bool (LabelsOther t) = t"

text \<open>The comprehension \<^verbatim>\<open>{label: label for label in labels}\<close>.\<close>

fun label_comprehension :: "string list \<Rightarrow> (string \<times> string) list \<Rightarrow> (string \<times> string) list" where
  "label_comprehension [] d = d"
| "label_comprehension (label # rest) d = label_comprehension rest (dict_set label label d)"

definition add_label :: "labels_arg \<Rightarrow> builder \<Rightarrow> (error + intent) \<times> builder" where
  "add_label lbls b =
     (case check_intent_exist b of
        Inl e \<Rightarrow> (Inl e, b)
      | Inr _ \<Rightarrow>
          (case get_proto_obj b of
             Inl e \<Rightarrow> (Inl e, b)
           | Inr obj \<Rightarrow>
               if \<not> labels_bool lbls then (Inr obj, b)
               else (case lbls of
                       LabelsList xs \<Rightarrow>
                         let obj' = obj\<lparr>labels := dict_update (labels obj) (label_comprehension xs [])\<rparr>
                         in (Inr obj', b\<lparr>proto_obj := Some obj'\<rparr>)
                     | LabelsDict d \<Rightarrow>
                         let obj' = obj\<lparr>labels := dict_update (labels obj) d\<rparr>
                         in (Inr obj', b\<lparr>proto_obj := Some obj'\<rparr>)
                     | LabelsOther t \<Rightarrow>
                         (Inl (ValueError ''labels should be either a list or a dictionary.''), b))))"

subsection \<open>The cross-reference validator\<close>

text \<open>
  \<^verbatim>\<open>_parameter_checking\<close>. Python does not fix the order in which the
  \<^verbatim>\<open>for\<close> loop walks a set, so that order is the argument \<open>iter\<close>: it maps the
  elements of the set to the sequence the loop sees.
\<close>

fun collect_parts :: "part list \<Rightarrow> string list \<Rightarrow> string list" where
  "collect_parts [] tp_params_set = tp_params_set"
| "collect_parts (p # ps) tp_params_set = collect_parts ps (set_add (parameter_id p) tp_params_set)"

fun collect_phrases :: "training_phrase list \<Rightarrow> string list \<Rightarrow> string list" where
  "collect_phrases [] tp_params_set = tp_params_set"
| "collect_phrases (tp # tps) tp_params_set =
     collect_phrases tps (collect_parts (parts tp) tp_params_set)"

fun collect_ids :: "parameter list \<Rightarrow> string list \<Rightarrow> string list" where
  "collect_ids [] parameters_set = parameters_set"
| "collect_ids (param # params) parameters_set =
     collect_ids params (set_add (param_id param) parameters_set)"

definition dangling :: "string \<Rightarrow> error" where
  "dangling tp_param =
     Exception (''parameter_id '' @ tp_param @
       '' does not exist in parameters.Please add it using add_parameter method to continue.'')"

fun check_loop :: "string list \<Rightarrow> string list \<Rightarrow> error + unit" where
  "check_loop [] parameters_set = Inr ()"
| "check_loop (tp_param # rest) parameters_set =
     (if tp_param \<notin> set parameters_set then Inl (dangling tp_param)
      else check_loop rest parameters_set)"

definition parameter_checking :: "(string list \<Rightarrow> string list) \<Rightarrow> builder \<Rightarrow> error + unit" where
  "parameter_checking iter b =
     (case get_proto_obj b of
        Inl e \<Rightarrow> Inl e
      | Inr obj \<Rightarrow>
          let tp_params_set = collect_phrases (training_phrases obj) [];
              tp_params_set = (case set_remove [] tp_params_set of
                                 Inl e \<Rightarrow> tp_params_set
                               | Inr s \<Rightarrow> s);
              parameters_set = collect_ids (parameters obj) []
          in check_loop (iter tp_params_set) parameters_set)"

subsection \<open>Callers\<close>

text \<open>A store in which every address holds the empty list.\<close>

definition empty_store :: store where
  "empty_store = (\<lambda>a. [])"

text \<open>
  A caller that makes one mutating call after another on the same builder, catching
  whatever each of them raises: the outcomes in order, and the state left at the end.
\<close>

datatype call =
    AddTrainingPhrase nat nat int
  | AddParameter string string bool bool
  | AddLabel labels_arg

fun run_call :: "call \<Rightarrow> builder \<Rightarrow> store \<Rightarrow> (error + intent) \<times> builder \<times> store" where
  "run_call (AddTrainingPhrase phrase annotations rc) b s = add_training_phrase phrase annotations rc b s"
| "run_call (AddParameter pid etype lst red) b s =
     (case add_parameter pid etype lst red b of (r, b') \<Rightarrow> (r, b', s))"
| "run_call (AddLabel lbls) b s = (case add_label lbls b of (r, b') \<Rightarrow> (r, b', s))"

fun run_calls :: "call list \<Rightarrow> builder \<Rightarrow> store \<Rightarrow> (error + intent) list \<times> builder \<times> store" where
  "run_calls [] b s = ([], b, s)"
| "run_calls (c # cs) b s =
     (case run_call c b s of
        (r, b', s') \<Rightarrow> (case run_calls cs b' s' of (rs, b'', s'') \<Rightarrow> (r # rs, b'', s'')))"

section \<open>What the specification says, in its own words\<close>

text \<open>
  One Part per position of \<^verbatim>\<open>phrase\<close>: \<^verbatim>\<open>phrase[i]\<close> paired with
  \<^verbatim>\<open>annotations[i]\<close>, and with the empty string where \<^verbatim>\<open>annotations\<close> is
  shorter.
\<close>

definition spec_parts :: "string list \<Rightarrow> string list \<Rightarrow> part list" where
  "spec_parts ts anns =
     map (\<lambda>i. \<lparr>part_text = ts ! i,
               parameter_id = (if i < length anns then anns ! i else [])\<rparr>) [0..<length ts]"

text \<open>
  The non-empty parameter ids that the Parts of an Intent refer to, and the ids of the
  Parameters it declares.
\<close>

definition referenced_ids :: "intent \<Rightarrow> string set" where
  "referenced_ids obj =
     (\<Union>tp \<in> set (training_phrases obj). parameter_id ` set (parts tp)) - {[]}"

definition declared_ids :: "intent \<Rightarrow> string set" where
  "declared_ids obj = param_id ` set (parameters obj)"

text \<open>The value a row holds under the key \<^verbatim>\<open>"text"\<close>, when it is a mapping that has one.\<close>

fun row_text :: "'v row \<Rightarrow> 'v option" where
  "row_text (RowStr s) = None"
| "row_text (RowMap m) = map_of m ''text''"

fun is_plain_string :: "'v row \<Rightarrow> bool" where
  "is_plain_string (RowStr s) = True"
| "is_plain_string (RowMap m) = False"

section \<open>Auxiliary facts\<close>

subsection \<open>The presence check\<close>

lemma check_intent_exist_Some:
  "proto_obj b = Some obj \<Longrightarrow>
     check_intent_exist b = (if intent_bool obj then Inr () else Inl no_proto_obj)"
  by (simp add: check_intent_exist_def get_proto_obj_def)

lemma check_intent_exist_None:
  "proto_obj b = None \<Longrightarrow> check_intent_exist b = Inl (AttributeError ''proto_obj'')"
  by (simp add: check_intent_exist_def get_proto_obj_def)

lemma get_proto_obj_Some: "proto_obj b = Some obj \<Longrightarrow> get_proto_obj b = Inr obj"
  by (simp add: get_proto_obj_def)

lemma intent_bool_default: "\<not> intent_bool default_intent"
  by (simp add: intent_bool_def default_intent_def)

subsection \<open>Dictionaries\<close>

lemma map_of_dict_set: "map_of (dict_set k v d) = (map_of d)(k \<mapsto> v)"
  by (induction d) (auto simp: fun_eq_iff)

lemma map_of_dict_update:
  "distinct (map fst other) \<Longrightarrow> map_of (dict_update d other) = map_of d ++ map_of other"
proof (induction other arbitrary: d)
  case Nil
  then show ?case by simp
next
  case (Cons kv other)
  obtain k v where kv: "kv = (k, v)" by (cases kv)
  from Cons.prems kv have fresh: "map_of other k = None" and dist: "distinct (map fst other)"
    by (simp_all add: map_of_eq_None_iff)
  show ?case
    using fresh by (auto simp: kv Cons.IH [OF dist] map_of_dict_set fun_eq_iff map_add_def
        split: option.splits)
qed

lemma fst_set_dict_set: "fst ` set (dict_set k v d) = insert k (fst ` set d)"
proof (induction d)
  case Nil
  then show ?case by simp
next
  case (Cons kv d)
  obtain k' v' where kv: "kv = (k', v')" by (cases kv)
  show ?case
  proof (cases "k' = k")
    case True
    then show ?thesis by (simp add: kv)
  next
    case False
    then show ?thesis using Cons.IH by (simp add: kv insert_commute)
  qed
qed

lemma distinct_dict_set: "distinct (map fst d) \<Longrightarrow> distinct (map fst (dict_set k v d))"
proof (induction d)
  case Nil
  then show ?case by simp
next
  case (Cons kv d)
  obtain k' v' where kv: "kv = (k', v')" by (cases kv)
  show ?case
  proof (cases "k' = k")
    case True
    then show ?thesis using Cons.prems by (simp add: kv)
  next
    case False
    then show ?thesis using Cons by (simp add: kv fst_set_dict_set)
  qed
qed

lemma distinct_label_comprehension:
  "distinct (map fst d) \<Longrightarrow> distinct (map fst (label_comprehension xs d))"
  by (induction xs arbitrary: d) (simp_all add: distinct_dict_set)

lemma dict_set_not_Nil: "dict_set k v d \<noteq> []"
  by (cases d) (auto split: if_splits)

lemma dict_update_not_Nil: "d \<noteq> [] \<or> other \<noteq> [] \<Longrightarrow> dict_update d other \<noteq> []"
proof (induction other arbitrary: d)
  case Nil
  then show ?case by simp
next
  case (Cons kv other)
  obtain k v where kv: "kv = (k, v)" by (cases kv)
  show ?case using Cons.IH [of "dict_set k v d"] by (simp add: kv dict_set_not_Nil)
qed

lemma map_of_label_comprehension:
  "map_of (label_comprehension xs d) = (\<lambda>k. if k \<in> set xs then Some k else map_of d k)"
  by (induction xs arbitrary: d) (auto simp: map_of_dict_set fun_eq_iff)

subsection \<open>Building the parts\<close>

lemma parts_loop_strs:
  "length ts = length ps \<Longrightarrow>
   parts_loop (zip (map PyStr ts) (map PyStr ps)) acc =
     Inr (acc @ map (\<lambda>(t, p). \<lparr>part_text = t, parameter_id = p\<rparr>) (zip ts ps))"
proof (induction ts arbitrary: ps acc)
  case Nil
  then show ?case by simp
next
  case (Cons t ts)
  then obtain p ps' where "ps = p # ps'" by (cases ps) auto
  with Cons show ?case by simp
qed

lemma zip_padded_spec_parts:
  assumes "length anns \<le> length ts"
  shows "map (\<lambda>(t, p). \<lparr>part_text = t, parameter_id = p\<rparr>)
           (zip ts (anns @ replicate (length ts - length anns) [])) = spec_parts ts anns"
proof (rule nth_equalityI)
  show "length (map (\<lambda>(t, p). \<lparr>part_text = t, parameter_id = p\<rparr>)
           (zip ts (anns @ replicate (length ts - length anns) []))) = length (spec_parts ts anns)"
    using assms by (simp add: spec_parts_def)
next
  fix i
  assume "i < length (map (\<lambda>(t, p). \<lparr>part_text = t, parameter_id = p\<rparr>)
           (zip ts (anns @ replicate (length ts - length anns) [])))"
  then have i: "i < length ts" using assms by simp
  then show "map (\<lambda>(t, p). \<lparr>part_text = t, parameter_id = p\<rparr>)
           (zip ts (anns @ replicate (length ts - length anns) [])) ! i = spec_parts ts anns ! i"
    using assms by (simp add: spec_parts_def nth_append)
qed

lemma add_training_phrase_ok:
  assumes own: "proto_obj b = Some obj" and tr: "intent_bool obj"
    and ph: "s phrase = map PyStr ts" and an: "s annotations = map PyStr anns"
    and len: "length anns \<le> length ts" and rc: "int32 rc"
  shows "add_training_phrase phrase annotations rc b s =
    (Inr (obj\<lparr>training_phrases := training_phrases obj @
            [\<lparr>parts = spec_parts ts anns, repeat_count = rc\<rparr>]\<rparr>),
     b\<lparr>proto_obj := Some (obj\<lparr>training_phrases := training_phrases obj @
            [\<lparr>parts = spec_parts ts anns, repeat_count = rc\<rparr>]\<rparr>)\<rparr>,
     s(annotations := map PyStr (anns @ replicate (length ts - length anns) [])))"
proof -
  let ?pad = "anns @ replicate (length ts - length anns) []"
  let ?s' = "s(annotations := s annotations @
               replicate (length (s phrase) - length (s annotations)) (PyStr []))"
  have s'an: "?s' annotations = map PyStr ?pad"
    by (simp add: ph an)
  have s'ph: "?s' phrase = map PyStr ts"
  proof (cases "phrase = annotations")
    case True
    with ph an have "map PyStr ts = map PyStr anns" by simp
    then have "length ts = length anns" by (metis length_map)
    with True ph an show ?thesis by simp
  next
    case False
    then show ?thesis by (simp add: ph)
  qed
  have lenpad: "length ts = length ?pad" using len by simp
  have strs: "list_all isinstance_str (s phrase)" "list_all isinstance_str (s annotations)"
    by (simp_all add: ph an list_all_iff)
  have nlen: "\<not> length (s annotations) > length (s phrase)"
    using len by (simp add: ph an)
  have loop: "parts_loop (zip (?s' phrase) (?s' annotations)) [] = Inr (spec_parts ts anns)"
    unfolding s'an s'ph
    using parts_loop_strs [OF lenpad, of "[]"] zip_padded_spec_parts [OF len] by simp
  have chk: "check_intent_exist b = Inr ()"
    using check_intent_exist_Some [OF own] tr by simp
  have get: "get_proto_obj b = Inr obj"
    by (simp add: get_proto_obj_def own)
  have tp: "TrainingPhrase (spec_parts ts anns) rc =
      Inr \<lparr>parts = spec_parts ts anns, repeat_count = rc\<rparr>"
    using rc by (simp add: TrainingPhrase_def)
  show ?thesis
    unfolding add_training_phrase_def Let_def chk loop get
    using strs nlen by (simp add: ph an tp)
qed

lemma add_training_phrase_out_of_range:
  assumes own: "proto_obj b = Some obj" and tr: "intent_bool obj"
    and ph: "s phrase = map PyStr ts" and an: "s annotations = map PyStr anns"
    and len: "length anns \<le> length ts" and rc: "\<not> int32 rc"
  shows "add_training_phrase phrase annotations rc b s =
    (Inl (ValueError ''Value out of range''), b,
     s(annotations := map PyStr (anns @ replicate (length ts - length anns) [])))"
proof -
  let ?pad = "anns @ replicate (length ts - length anns) []"
  let ?s' = "s(annotations := s annotations @
               replicate (length (s phrase) - length (s annotations)) (PyStr []))"
  have s'an: "?s' annotations = map PyStr ?pad"
    by (simp add: ph an)
  have s'ph: "?s' phrase = map PyStr ts"
  proof (cases "phrase = annotations")
    case True
    with ph an have "map PyStr ts = map PyStr anns" by simp
    then have "length ts = length anns" by (metis length_map)
    with True ph an show ?thesis by simp
  next
    case False
    then show ?thesis by (simp add: ph)
  qed
  have lenpad: "length ts = length ?pad" using len by simp
  have strs: "list_all isinstance_str (s phrase)" "list_all isinstance_str (s annotations)"
    by (simp_all add: ph an list_all_iff)
  have nlen: "\<not> length (s annotations) > length (s phrase)"
    using len by (simp add: ph an)
  have loop: "parts_loop (zip (?s' phrase) (?s' annotations)) [] = Inr (spec_parts ts anns)"
    unfolding s'an s'ph
    using parts_loop_strs [OF lenpad, of "[]"] zip_padded_spec_parts [OF len] by simp
  have chk: "check_intent_exist b = Inr ()"
    using check_intent_exist_Some [OF own] tr by simp
  have tp: "TrainingPhrase (spec_parts ts anns) rc = Inl (ValueError ''Value out of range'')"
    using rc by (simp add: TrainingPhrase_def)
  show ?thesis
    unfolding add_training_phrase_def Let_def chk loop
    using strs nlen by (simp add: ph an tp)
qed

lemma add_training_phrase_store:
  "add_training_phrase phrase annotations rc b s = (Inr obj', b', s') \<Longrightarrow>
     s' = s(annotations := s annotations @
            replicate (length (s phrase) - length (s annotations)) (PyStr []))"
  by (auto simp: add_training_phrase_def Let_def split: sum.splits if_splits)

lemma add_parameter_ok:
  assumes "proto_obj b = Some obj" and "intent_bool obj"
  shows "add_parameter pid etype lst red b =
    (Inr (obj\<lparr>parameters := parameters obj @
            [\<lparr>param_id = pid, entity_type = etype, is_list = lst, redact = red\<rparr>]\<rparr>),
     b\<lparr>proto_obj := Some (obj\<lparr>parameters := parameters obj @
            [\<lparr>param_id = pid, entity_type = etype, is_list = lst, redact = red\<rparr>]\<rparr>)\<rparr>)"
  using assms
  by (simp add: add_parameter_def check_intent_exist_Some get_proto_obj_Some Let_def)

lemma falsy_add_training_phrase:
  "proto_obj b = Some obj \<Longrightarrow> \<not> intent_bool obj \<Longrightarrow>
     add_training_phrase phrase annotations rc b s = (Inl no_proto_obj, b, s)"
  by (simp add: add_training_phrase_def check_intent_exist_Some)

lemma falsy_add_parameter:
  "proto_obj b = Some obj \<Longrightarrow> \<not> intent_bool obj \<Longrightarrow>
     add_parameter pid etype lst red b = (Inl no_proto_obj, b)"
  by (simp add: add_parameter_def check_intent_exist_Some)

lemma falsy_add_label:
  "proto_obj b = Some obj \<Longrightarrow> \<not> intent_bool obj \<Longrightarrow>
     add_label lbls b = (Inl no_proto_obj, b)"
  by (simp add: add_label_def check_intent_exist_Some)

lemma falsy_run_calls:
  "proto_obj b = Some obj \<Longrightarrow> \<not> intent_bool obj \<Longrightarrow>
     run_calls cs b s = (replicate (length cs) (Inl no_proto_obj), b, s)"
proof (induction cs)
  case Nil
  then show ?case by simp
next
  case (Cons c cs)
  then have "run_call c b s = (Inl no_proto_obj, b, s)"
    by (cases c) (simp_all add: falsy_add_training_phrase falsy_add_parameter falsy_add_label)
  with Cons show ?case by simp
qed

subsection \<open>add_label\<close>

lemma add_label_falsy_arg:
  assumes "proto_obj b = Some obj" and "intent_bool obj" and "\<not> labels_bool lbls"
  shows "add_label lbls b = (Inr obj, b)"
  using assms by (simp add: add_label_def check_intent_exist_Some get_proto_obj_Some)

lemma add_label_list:
  assumes "proto_obj b = Some obj" and "intent_bool obj"
  shows "add_label (LabelsList xs) b =
    (Inr (obj\<lparr>labels := dict_update (labels obj) (label_comprehension xs [])\<rparr>),
     b\<lparr>proto_obj := Some (obj\<lparr>labels := dict_update (labels obj) (label_comprehension xs [])\<rparr>)\<rparr>)"
proof (cases "xs = []")
  case True
  then show ?thesis
    using assms by (simp add: add_label_def check_intent_exist_Some get_proto_obj_Some)
next
  case False
  then show ?thesis
    using assms by (simp add: add_label_def check_intent_exist_Some get_proto_obj_Some Let_def)
qed

lemma add_label_dict:
  assumes "proto_obj b = Some obj" and "intent_bool obj"
  shows "add_label (LabelsDict d) b =
    (Inr (obj\<lparr>labels := dict_update (labels obj) d\<rparr>),
     b\<lparr>proto_obj := Some (obj\<lparr>labels := dict_update (labels obj) d\<rparr>)\<rparr>)"
proof (cases "d = []")
  case True
  then show ?thesis
    using assms by (simp add: add_label_def check_intent_exist_Some get_proto_obj_Some)
next
  case False
  then show ?thesis
    using assms by (simp add: add_label_def check_intent_exist_Some get_proto_obj_Some Let_def)
qed

lemma add_label_other:
  assumes "proto_obj b = Some obj" and "intent_bool obj"
  shows "add_label (LabelsOther True) b =
    (Inl (ValueError ''labels should be either a list or a dictionary.''), b)"
  using assms by (simp add: add_label_def check_intent_exist_Some get_proto_obj_Some)

lemma map_of_labels_list:
  "map_of (dict_update l (label_comprehension xs [])) =
     (\<lambda>k. if k \<in> set xs then Some k else map_of l k)"
proof -
  have "distinct (map fst (label_comprehension xs []))"
    by (rule distinct_label_comprehension) simp
  then show ?thesis
    by (auto simp: map_of_dict_update map_of_label_comprehension fun_eq_iff map_add_def)
qed

lemma intent_bool_labels:
  "intent_bool obj \<Longrightarrow> intent_bool (obj\<lparr>labels := dict_update (labels obj) d\<rparr>)"
  using dict_update_not_Nil [of "labels obj" d] by (auto simp: intent_bool_def)

subsection \<open>The sets of the validator\<close>

lemma set_set_add: "set (set_add x s) = insert x (set s)"
  by (auto simp: set_add_def)

lemma set_collect_parts:
  "set (collect_parts ps acc) = set acc \<union> parameter_id ` set ps"
  by (induction ps arbitrary: acc) (auto simp: set_set_add)

lemma set_collect_phrases:
  "set (collect_phrases tps acc) =
     set acc \<union> (\<Union>tp \<in> set tps. parameter_id ` set (parts tp))"
  by (induction tps arbitrary: acc) (auto simp: set_collect_parts)

lemma set_collect_ids:
  "set (collect_ids ps acc) = set acc \<union> param_id ` set ps"
  by (induction ps arbitrary: acc) (auto simp: set_set_add)

lemma check_loop_pass: "set xs \<subseteq> set ps \<Longrightarrow> check_loop xs ps = Inr ()"
  by (induction xs) auto

lemma check_loop_fail:
  "\<not> set xs \<subseteq> set ps \<Longrightarrow> \<exists>p \<in> set xs - set ps. check_loop xs ps = Inl (dangling p)"
  by (induction xs) auto

lemma parameter_checking_sets:
  assumes own: "proto_obj b = Some obj"
  shows "\<exists>xs ps. set xs = referenced_ids obj \<and> set ps = declared_ids obj \<and>
           parameter_checking iter b = check_loop (iter xs) ps"
proof -
  let ?c = "collect_phrases (training_phrases obj) []"
  let ?xs = "case set_remove [] ?c of Inl e \<Rightarrow> ?c | Inr s \<Rightarrow> s"
  let ?ps = "collect_ids (parameters obj) []"
  have "set ?xs = referenced_ids obj"
    by (auto simp: set_remove_def referenced_ids_def set_collect_phrases)
  moreover have "set ?ps = declared_ids obj"
    by (simp add: declared_ids_def set_collect_ids)
  moreover have "parameter_checking iter b = check_loop (iter ?xs) ?ps"
    by (simp add: parameter_checking_def get_proto_obj_Some [OF own] Let_def)
  ultimately show ?thesis by blast
qed

lemma parameter_checking_pass:
  assumes "proto_obj b = Some obj" and "\<And>xs. set (iter xs) = set xs"
    and "referenced_ids obj \<subseteq> declared_ids obj"
  shows "parameter_checking iter b = Inr ()"
proof -
  obtain xs ps where "set xs = referenced_ids obj" "set ps = declared_ids obj"
    "parameter_checking iter b = check_loop (iter xs) ps"
    using parameter_checking_sets [OF assms(1)] by blast
  with assms(2,3) show ?thesis by (simp add: check_loop_pass)
qed

lemma parameter_checking_fail:
  assumes "proto_obj b = Some obj" and "\<And>xs. set (iter xs) = set xs"
    and "\<not> referenced_ids obj \<subseteq> declared_ids obj"
  shows "\<exists>p \<in> referenced_ids obj - declared_ids obj. parameter_checking iter b = Inl (dangling p)"
proof -
  obtain xs ps where sets: "set xs = referenced_ids obj" "set ps = declared_ids obj"
    and run: "parameter_checking iter b = check_loop (iter xs) ps"
    using parameter_checking_sets [OF assms(1)] by blast
  have "\<not> set (iter xs) \<subseteq> set ps" using assms(2,3) sets by simp
  from check_loop_fail [OF this] show ?thesis using assms(2) sets run by simp
qed

subsection \<open>The comprehension of build_intent\<close>

lemma tps_comprehension_maps:
  assumes "\<forall>row \<in> set phrases. row_text row \<noteq> None"
    and "tps = [] \<or> (\<exists>v. tps = [(''text'', v)])"
    and "phrases \<noteq> []"
  shows "\<exists>t. row_text (last phrases) = Some t \<and>
           tps_comprehension phrases tps = Inr [(''text'', t)]"
  using assms
proof (induction phrases arbitrary: tps)
  case Nil
  then show ?case by simp
next
  case (Cons row phrases)
  from Cons.prems(1) obtain v where v: "row_text row = Some v" by auto
  then obtain m where row: "row = RowMap m" and m: "map_of m ''text'' = Some v"
    by (cases row) auto
  have set: "dict_set ''text'' v tps = [(''text'', v)]"
    using Cons.prems(2) by auto
  show ?case
  proof (cases "phrases = []")
    case True
    then show ?thesis using v row m set by simp
  next
    case False
    have "\<exists>t. row_text (last phrases) = Some t \<and>
            tps_comprehension phrases [(''text'', v)] = Inr [(''text'', t)]"
      using Cons.IH [of "[(''text'', v)]"] Cons.prems(1) False by simp
    then show ?thesis using False row m set by simp
  qed
qed

lemma tps_comprehension_strings:
  "phrases \<noteq> [] \<Longrightarrow> is_plain_string (hd phrases) \<Longrightarrow>
     tps_comprehension phrases tps = Inl (TypeError ''string indices must be integers'')"
  by (cases phrases; cases "hd phrases") auto

section \<open>The methods once the presence check has passed\<close>

text \<open>
  \<^verbatim>\<open>add_parameter\<close> on an owned Intent that the presence check lets through: it
  appends exactly one Parameter with the given fields to the end of the parameters,
  leaves every other field of the Intent as it was and returns the Intent, which the
  builder still owns. No uniqueness check is made: a second call with the same id
  appends a second Parameter with that id.
\<close>

lemma add_parameter_appends:
  assumes "proto_obj b = Some obj" and "intent_bool obj"
  shows "add_parameter pid etype lst red b =
      (Inr (obj\<lparr>parameters := parameters obj @
              [\<lparr>param_id = pid, entity_type = etype, is_list = lst, redact = red\<rparr>]\<rparr>),
       b\<lparr>proto_obj := Some (obj\<lparr>parameters := parameters obj @
              [\<lparr>param_id = pid, entity_type = etype, is_list = lst, redact = red\<rparr>]\<rparr>)\<rparr>) \<and>
    fst (add_parameter pid etype' lst' red' (snd (add_parameter pid etype lst red b))) =
      Inr (obj\<lparr>parameters := parameters obj @
              [\<lparr>param_id = pid, entity_type = etype, is_list = lst, redact = red\<rparr>,
               \<lparr>param_id = pid, entity_type = etype', is_list = lst', redact = red'\<rparr>]\<rparr>)"
proof -
  let ?obj1 = "obj\<lparr>parameters := parameters obj @
              [\<lparr>param_id = pid, entity_type = etype, is_list = lst, redact = red\<rparr>]\<rparr>"
  have first: "add_parameter pid etype lst red b = (Inr ?obj1, b\<lparr>proto_obj := Some ?obj1\<rparr>)"
    by (rule add_parameter_ok [OF assms])
  have own1: "proto_obj (b\<lparr>proto_obj := Some ?obj1\<rparr>) = Some ?obj1" by simp
  have tr1: "intent_bool ?obj1" by (simp add: intent_bool_def)
  show ?thesis
    unfolding first using add_parameter_ok [OF own1 tr1, of pid etype' lst' red'] by simp
qed

text \<open>
  \<^verbatim>\<open>add_training_phrase\<close> on an owned Intent that the presence check lets through,
  with lists of strings of which \<^verbatim>\<open>annotations\<close> is not the longer and a
  \<^verbatim>\<open>repeat_count\<close> the 32-bit field can hold: it builds one Part per position in
  order, pairing \<^verbatim>\<open>phrase[i]\<close> with \<^verbatim>\<open>annotations[i]\<close> and with the empty
  string where \<^verbatim>\<open>annotations\<close> is shorter, wraps them in a TrainingPhrase with the
  given \<^verbatim>\<open>repeat_count\<close>, appends it after the training phrases already there and
  returns the Intent. With \<^verbatim>\<open>phrase = ["a","b","c"]\<close>, \<^verbatim>\<open>annotations = ["x"]\<close>
  and the default \<^verbatim>\<open>repeat_count\<close> the appended TrainingPhrase has the parts
  \<^verbatim>\<open>("a","x"), ("b",""), ("c","")\<close> and \<^verbatim>\<open>repeat_count\<close> 1.
\<close>

lemma add_training_phrase_appends:
  assumes "proto_obj b = Some obj" and "intent_bool obj"
    and "s phrase = map PyStr ts" and "s annotations = map PyStr anns"
    and "length anns \<le> length ts"
  shows "(int32 rc \<longrightarrow>
      add_training_phrase phrase annotations rc b s =
        (Inr (obj\<lparr>training_phrases := training_phrases obj @
                [\<lparr>parts = spec_parts ts anns, repeat_count = rc\<rparr>]\<rparr>),
         b\<lparr>proto_obj := Some (obj\<lparr>training_phrases := training_phrases obj @
                [\<lparr>parts = spec_parts ts anns, repeat_count = rc\<rparr>]\<rparr>)\<rparr>,
         s(annotations := map PyStr (anns @ replicate (length ts - length anns) [])))) \<and>
    (ts = [''a'', ''b'', ''c''] \<and> anns = [''x''] \<longrightarrow>
       fst (add_training_phrase phrase annotations default_repeat_count b s) =
         Inr (obj\<lparr>training_phrases := training_phrases obj @
                [\<lparr>parts = [\<lparr>part_text = ''a'', parameter_id = ''x''\<rparr>,
                            \<lparr>part_text = ''b'', parameter_id = []\<rparr>,
                            \<lparr>part_text = ''c'', parameter_id = []\<rparr>],
                  repeat_count = 1\<rparr>]\<rparr>))"
proof -
  have abc: "spec_parts [''a'', ''b'', ''c''] [''x''] =
      [\<lparr>part_text = ''a'', parameter_id = ''x''\<rparr>,
       \<lparr>part_text = ''b'', parameter_id = []\<rparr>,
       \<lparr>part_text = ''c'', parameter_id = []\<rparr>]"
    using zip_padded_spec_parts [of "[''x'']" "[''a'', ''b'', ''c'']", symmetric] by simp
  have one: "int32 default_repeat_count"
    by (simp add: int32_def default_repeat_count_def)
  have general: "add_training_phrase phrase annotations rc b s =
        (Inr (obj\<lparr>training_phrases := training_phrases obj @
                [\<lparr>parts = spec_parts ts anns, repeat_count = rc\<rparr>]\<rparr>),
         b\<lparr>proto_obj := Some (obj\<lparr>training_phrases := training_phrases obj @
                [\<lparr>parts = spec_parts ts anns, repeat_count = rc\<rparr>]\<rparr>)\<rparr>,
         s(annotations := map PyStr (anns @ replicate (length ts - length anns) [])))"
    if "int32 rc"
    by (rule add_training_phrase_ok [OF assms that])
  have example: "fst (add_training_phrase phrase annotations default_repeat_count b s) =
         Inr (obj\<lparr>training_phrases := training_phrases obj @
                [\<lparr>parts = [\<lparr>part_text = ''a'', parameter_id = ''x''\<rparr>,
                            \<lparr>part_text = ''b'', parameter_id = []\<rparr>,
                            \<lparr>part_text = ''c'', parameter_id = []\<rparr>],
                  repeat_count = 1\<rparr>]\<rparr>)"
    if "ts = [''a'', ''b'', ''c''] \<and> anns = [''x'']"
    using add_training_phrase_ok [OF assms one] abc that
    by (simp add: default_repeat_count_def)
  show ?thesis using general example by blast
qed

text \<open>
  \<^verbatim>\<open>add_training_phrase\<close> with an \<^verbatim>\<open>annotations\<close> list strictly longer than
  the \<^verbatim>\<open>phrase\<close> list: the call raises, and builder, owned Intent and the caller's
  lists are left exactly as they were; on an owned Intent that the presence check lets
  through, and with lists of strings, what it raises is the \<^verbatim>\<open>IndexError\<close> of the
  length test.
\<close>

lemma add_training_phrase_length_error:
  assumes "length (s annotations) > length (s phrase)"
  shows "(\<exists>e. add_training_phrase phrase annotations rc b s = (Inl e, b, s)) \<and>
    (proto_obj b = Some obj \<and> intent_bool obj \<and>
     list_all isinstance_str (s phrase) \<and> list_all isinstance_str (s annotations) \<longrightarrow>
       add_training_phrase phrase annotations rc b s =
         (Inl (IndexError ''Length of annotations list is more than phrase list!''), b, s))"
proof -
  have fails: "\<exists>e. add_training_phrase phrase annotations rc b s = (Inl e, b, s)"
    using assms by (auto simp: add_training_phrase_def split: sum.splits)
  have length_error: "add_training_phrase phrase annotations rc b s =
         (Inl (IndexError ''Length of annotations list is more than phrase list!''), b, s)"
    if "proto_obj b = Some obj" "intent_bool obj"
       "list_all isinstance_str (s phrase)" "list_all isinstance_str (s annotations)"
    using that assms by (simp add: add_training_phrase_def check_intent_exist_Some)
  show ?thesis using fails length_error by blast
qed

text \<open>
  \<^verbatim>\<open>add_label\<close> on an owned Intent that the presence check lets through: a falsy
  argument changes nothing; a list of strings merges \<^verbatim>\<open>{s: s}\<close> for each element
  into the labels, existing keys overwritten; a dictionary is merged into the labels; a
  truthy argument of any other class raises the \<^verbatim>\<open>ValueError\<close> of the last
  branch; and whenever the call does not raise it returns the owned Intent, in which only
  the labels may differ. So \<^verbatim>\<open>add_label(["vip","urgent"])\<close> on an Intent without
  labels gives the labels \<^verbatim>\<open>{"vip":"vip","urgent":"urgent"}\<close>, and
  \<^verbatim>\<open>add_label({"a":"1"})\<close> followed by \<^verbatim>\<open>add_label({"a":"2"})\<close> leaves
  \<^verbatim>\<open>"a"\<close> bound to \<^verbatim>\<open>"2"\<close>.
\<close>

lemma add_label_merges:
  assumes "proto_obj b = Some obj" and "intent_bool obj"
  shows "(\<not> labels_bool lbls \<longrightarrow> add_label lbls b = (Inr obj, b)) \<and>
    (\<exists>obj'. add_label (LabelsList xs) b = (Inr obj', b\<lparr>proto_obj := Some obj'\<rparr>) \<and>
            obj' = obj\<lparr>labels := labels obj'\<rparr> \<and>
            map_of (labels obj') = (\<lambda>k. if k \<in> set xs then Some k else map_of (labels obj) k)) \<and>
    (distinct (map fst d) \<longrightarrow>
       (\<exists>obj'. add_label (LabelsDict d) b = (Inr obj', b\<lparr>proto_obj := Some obj'\<rparr>) \<and>
            obj' = obj\<lparr>labels := labels obj'\<rparr> \<and>
            map_of (labels obj') = map_of (labels obj) ++ map_of d)) \<and>
    add_label (LabelsOther True) b =
      (Inl (ValueError ''labels should be either a list or a dictionary.''), b) \<and>
    (labels obj = [] \<longrightarrow>
       fst (add_label (LabelsList [''vip'', ''urgent'']) b) =
         Inr (obj\<lparr>labels := [(''vip'', ''vip''), (''urgent'', ''urgent'')]\<rparr>)) \<and>
    fst (add_label (LabelsDict [(''a'', ''2'')]) (snd (add_label (LabelsDict [(''a'', ''1'')]) b))) =
      Inr (obj\<lparr>labels := dict_set ''a'' ''2'' (dict_set ''a'' ''1'' (labels obj))\<rparr>) \<and>
    map_of (dict_set ''a'' ''2'' (dict_set ''a'' ''1'' (labels obj))) =
      (map_of (labels obj))(''a'' \<mapsto> ''2'') \<and>
    (labels obj = [] \<longrightarrow> dict_set ''a'' ''2'' (dict_set ''a'' ''1'' (labels obj)) = [(''a'', ''2'')])"
proof -
  have falsy: "\<not> labels_bool lbls \<longrightarrow> add_label lbls b = (Inr obj, b)"
    using add_label_falsy_arg [OF assms] by blast
  let ?l = "obj\<lparr>labels := dict_update (labels obj) (label_comprehension xs [])\<rparr>"
  have "add_label (LabelsList xs) b = (Inr ?l, b\<lparr>proto_obj := Some ?l\<rparr>) \<and>
        ?l = obj\<lparr>labels := labels ?l\<rparr> \<and>
        map_of (labels ?l) = (\<lambda>k. if k \<in> set xs then Some k else map_of (labels obj) k)"
    by (simp add: add_label_list [OF assms] map_of_labels_list)
  then have list: "\<exists>obj'. add_label (LabelsList xs) b = (Inr obj', b\<lparr>proto_obj := Some obj'\<rparr>) \<and>
            obj' = obj\<lparr>labels := labels obj'\<rparr> \<and>
            map_of (labels obj') = (\<lambda>k. if k \<in> set xs then Some k else map_of (labels obj) k)"
    by blast
  let ?d = "obj\<lparr>labels := dict_update (labels obj) d\<rparr>"
  have "add_label (LabelsDict d) b = (Inr ?d, b\<lparr>proto_obj := Some ?d\<rparr>) \<and>
        ?d = obj\<lparr>labels := labels ?d\<rparr> \<and>
        map_of (labels ?d) = map_of (labels obj) ++ map_of d"
    if "distinct (map fst d)"
    using that by (simp add: add_label_dict [OF assms] map_of_dict_update)
  then have dict: "distinct (map fst d) \<longrightarrow>
       (\<exists>obj'. add_label (LabelsDict d) b = (Inr obj', b\<lparr>proto_obj := Some obj'\<rparr>) \<and>
            obj' = obj\<lparr>labels := labels obj'\<rparr> \<and>
            map_of (labels obj') = map_of (labels obj) ++ map_of d)"
    by blast
  have other: "add_label (LabelsOther True) b =
      (Inl (ValueError ''labels should be either a list or a dictionary.''), b)"
    by (rule add_label_other [OF assms])
  have vip: "labels obj = [] \<longrightarrow>
       fst (add_label (LabelsList [''vip'', ''urgent'']) b) =
         Inr (obj\<lparr>labels := [(''vip'', ''vip''), (''urgent'', ''urgent'')]\<rparr>)"
    by (simp add: add_label_list [OF assms])
  let ?one = "obj\<lparr>labels := dict_set ''a'' ''1'' (labels obj)\<rparr>"
  have own1: "proto_obj (b\<lparr>proto_obj := Some ?one\<rparr>) = Some ?one" by simp
  have tr1: "intent_bool ?one"
    using intent_bool_labels [OF assms(2), of "[(''a'', ''1'')]"] by simp
  have twice: "fst (add_label (LabelsDict [(''a'', ''2'')])
                  (snd (add_label (LabelsDict [(''a'', ''1'')]) b))) =
      Inr (obj\<lparr>labels := dict_set ''a'' ''2'' (dict_set ''a'' ''1'' (labels obj))\<rparr>)"
    by (simp add: add_label_dict [OF assms] add_label_dict [OF own1 tr1])
  have overwritten: "map_of (dict_set ''a'' ''2'' (dict_set ''a'' ''1'' (labels obj))) =
      (map_of (labels obj))(''a'' \<mapsto> ''2'')"
    by (simp add: map_of_dict_set)
  have only: "labels obj = [] \<longrightarrow>
      dict_set ''a'' ''2'' (dict_set ''a'' ''1'' (labels obj)) = [(''a'', ''2'')]"
    by simp
  show ?thesis
    using falsy list dict other vip twice overwritten only by blast
qed

section \<open>The claims\<close>

subsection \<open>Builders that own nothing, or something falsy\<close>

text \<open>
  Claim C2 says that on a builder on which neither \<^verbatim>\<open>create_empty_intent\<close> nor
  \<^verbatim>\<open>load_intent\<close> was called, \<^verbatim>\<open>add_training_phrase\<close>, \<^verbatim>\<open>add_parameter\<close>
  and \<^verbatim>\<open>add_label\<close> raise the missing-resource error and nothing else. The code
  does not: \<^verbatim>\<open>__init__\<close> never assigns \<^verbatim>\<open>proto_obj\<close>, so reading it in
  \<^verbatim>\<open>_check_intent_exist\<close> raises \<^verbatim>\<open>AttributeError\<close> before the
  \<^verbatim>\<open>ValueError\<close> of that check is reached. The three calls on a new builder, for
  any arguments, end in that \<^verbatim>\<open>AttributeError\<close>, which is not the
  missing-resource error, and leave builder and store as they were.
\<close>

theorem fresh_builder_attribute_error:
  "add_training_phrase phrase annotations rc init s = (Inl (AttributeError ''proto_obj''), init, s) \<and>
   add_parameter pid etype lst red init = (Inl (AttributeError ''proto_obj''), init) \<and>
   add_label lbls init = (Inl (AttributeError ''proto_obj''), init) \<and>
   AttributeError ''proto_obj'' \<noteq> no_proto_obj"
  by (simp add: add_training_phrase_def add_parameter_def add_label_def
      check_intent_exist_None init_def no_proto_obj_def)

theorem fresh_builder_attribute_error_witness:
  "add_parameter ''city'' ''@sys.geo-city'' False False init =
     (Inl (AttributeError ''proto_obj''), \<lparr>proto_obj = None\<rparr>)"
  using fresh_builder_attribute_error [of 0 1 1 empty_store "''city''" "''@sys.geo-city''" False False
      "LabelsList []"]
  by (simp add: init_def)

text \<open>
  Claim C9: the presence check tests the truth value of the owned object, not whether
  one is owned. The check passes exactly when the attribute holds a truthy Intent. After
  \<^verbatim>\<open>load_intent\<close> of a falsy Intent the builder does own that Intent, and yet
  \<^verbatim>\<open>add_training_phrase\<close>, \<^verbatim>\<open>add_parameter\<close> and \<^verbatim>\<open>add_label\<close>
  each raise the missing-resource error and change nothing, so every call of any
  sequence of such calls raises it. The all-default Intent is falsy.
\<close>

theorem falsy_loaded_intent_rejected:
  assumes "\<not> intent_bool obj"
  shows "proto_obj (snd (load_intent obj b)) = Some obj \<and>
    add_training_phrase phrase annotations rc (snd (load_intent obj b)) s =
      (Inl no_proto_obj, snd (load_intent obj b), s) \<and>
    add_parameter pid etype lst red (snd (load_intent obj b)) =
      (Inl no_proto_obj, snd (load_intent obj b)) \<and>
    add_label lbls (snd (load_intent obj b)) = (Inl no_proto_obj, snd (load_intent obj b)) \<and>
    run_calls cs (snd (load_intent obj b)) s =
      (replicate (length cs) (Inl no_proto_obj), snd (load_intent obj b), s) \<and>
    (check_intent_exist b' = Inr () \<longleftrightarrow> (\<exists>obj'. proto_obj b' = Some obj' \<and> intent_bool obj')) \<and>
    \<not> intent_bool default_intent"
proof -
  have own: "proto_obj (snd (load_intent obj b)) = Some obj"
    by (simp add: load_intent_def)
  have chk: "check_intent_exist b' = Inr () \<longleftrightarrow> (\<exists>obj'. proto_obj b' = Some obj' \<and> intent_bool obj')"
    by (cases "proto_obj b'") (simp_all add: check_intent_exist_None check_intent_exist_Some)
  show ?thesis
    using own chk assms intent_bool_default
      falsy_add_training_phrase [OF own assms] falsy_add_parameter [OF own assms]
      falsy_add_label [OF own assms] falsy_run_calls [OF own assms]
    by simp
qed

theorem falsy_loaded_intent_rejected_witness:
  "\<not> intent_bool default_intent \<and>
   add_parameter ''city'' ''@sys.geo-city'' False False (snd (load_intent default_intent init)) =
     (Inl no_proto_obj, \<lparr>proto_obj = Some default_intent\<rparr>) \<and>
   run_calls [AddLabel (LabelsList [''vip'']), AddTrainingPhrase 0 1 1]
       (snd (load_intent default_intent init)) empty_store =
     ([Inl no_proto_obj, Inl no_proto_obj], \<lparr>proto_obj = Some default_intent\<rparr>, empty_store)"
proof -
  have h: "\<not> intent_bool default_intent"
    by (simp add: intent_bool_def default_intent_def)
  show ?thesis
    using h falsy_loaded_intent_rejected [OF h, of init 0 1 1 empty_store "''city''" "''@sys.geo-city''"
        False False "LabelsList []" "[AddLabel (LabelsList [''vip'']), AddTrainingPhrase 0 1 1]" init]
    by (simp add: load_intent_def init_def)
qed

subsection \<open>create_empty_intent\<close>

text \<open>
  Claim C5: for all arguments, \<^verbatim>\<open>create_empty_intent\<close> returns an Intent whose
  training phrases, parameters and labels are empty and whose display name, priority,
  fallback flag and description are the arguments as given, and the builder owns that
  Intent afterwards whatever it owned before. So a second call, made after any sequence
  of mutating calls on the Intent of a first call, again yields an Intent with no
  training phrase, no parameter and no label. The optional arguments default to priority
  500000 and no description.
\<close>

theorem create_empty_intent_replaces:
  "create_empty_intent dname prio fallback descr b =
     (\<lparr>display_name = dname, priority = prio, is_fallback = fallback, description = descr,
       training_phrases = [], parameters = [], labels = []\<rparr>,
      b\<lparr>proto_obj := Some
        \<lparr>display_name = dname, priority = prio, is_fallback = fallback, description = descr,
         training_phrases = [], parameters = [], labels = []\<rparr>\<rparr>) \<and>
   proto_obj (snd (create_empty_intent dname prio fallback descr
       (fst (snd (run_calls cs (snd (create_empty_intent dname0 prio0 fallback0 descr0 b)) s))))) =
     Some \<lparr>display_name = dname, priority = prio, is_fallback = fallback, description = descr,
       training_phrases = [], parameters = [], labels = []\<rparr> \<and>
   default_priority = 500000"
  by (simp add: create_empty_intent_def default_intent_def default_priority_def Let_def)

theorem create_empty_intent_replaces_witness:
  "parameters (the (proto_obj (fst (snd
       (run_calls [AddParameter ''city'' ''@sys.geo-city'' False False]
          (snd (create_empty_intent ''greet'' default_priority False (Some ''hello'') init))
          empty_store))))) =
     [\<lparr>param_id = ''city'', entity_type = ''@sys.geo-city'', is_list = False, redact = False\<rparr>] \<and>
   proto_obj (snd (create_empty_intent ''goodbye'' default_priority False None
       (fst (snd (run_calls [AddParameter ''city'' ''@sys.geo-city'' False False]
          (snd (create_empty_intent ''greet'' default_priority False (Some ''hello'') init))
          empty_store))))) =
     Some \<lparr>display_name = ''goodbye'', priority = default_priority, is_fallback = False,
       description = None, training_phrases = [], parameters = [], labels = []\<rparr>"
proof -
  let ?greet = "\<lparr>display_name = ''greet'', priority = 500000, is_fallback = False,
       description = Some ''hello'', training_phrases = [], parameters = [], labels = []\<rparr>"
  have first: "create_empty_intent ''greet'' default_priority False (Some ''hello'') init =
     (?greet, \<lparr>proto_obj = Some ?greet\<rparr>)"
    by (simp add: create_empty_intent_def default_intent_def Let_def default_priority_def init_def)
  have added: "add_parameter ''city'' ''@sys.geo-city'' False False \<lparr>proto_obj = Some ?greet\<rparr> =
     (Inr (?greet\<lparr>parameters := [\<lparr>param_id = ''city'', entity_type = ''@sys.geo-city'',
                                     is_list = False, redact = False\<rparr>]\<rparr>),
      \<lparr>proto_obj = Some (?greet\<lparr>parameters := [\<lparr>param_id = ''city'',
          entity_type = ''@sys.geo-city'', is_list = False, redact = False\<rparr>]\<rparr>)\<rparr>)"
    by (simp add: add_parameter_def check_intent_exist_def get_proto_obj_def intent_bool_def Let_def)
  have accumulated: "parameters (the (proto_obj (fst (snd
       (run_calls [AddParameter ''city'' ''@sys.geo-city'' False False]
          (snd (create_empty_intent ''greet'' default_priority False (Some ''hello'') init))
          empty_store))))) =
     [\<lparr>param_id = ''city'', entity_type = ''@sys.geo-city'', is_list = False, redact = False\<rparr>]"
    by (simp add: first added)
  have replaced: "proto_obj (snd (create_empty_intent ''goodbye'' default_priority False None
       (fst (snd (run_calls [AddParameter ''city'' ''@sys.geo-city'' False False]
          (snd (create_empty_intent ''greet'' default_priority False (Some ''hello'') init))
          empty_store))))) =
     Some \<lparr>display_name = ''goodbye'', priority = default_priority, is_fallback = False,
       description = None, training_phrases = [], parameters = [], labels = []\<rparr>"
    by (rule create_empty_intent_replaces [where dname = "''goodbye''" and prio = default_priority
        and fallback = False and descr = None and b = init and s = empty_store
        and cs = "[AddParameter ''city'' ''@sys.geo-city'' False False]"
        and dname0 = "''greet''" and prio0 = default_priority and fallback0 = False
        and descr0 = "Some ''hello''", THEN conjunct2, THEN conjunct1])
  show ?thesis by (rule conjI [OF accumulated replaced])
qed

subsection \<open>add_parameter\<close>

text \<open>
  Claim C8 says that for every owned Intent and all arguments \<^verbatim>\<open>add_parameter\<close>
  succeeds, appends exactly one Parameter to the end of the parameters, leaves the other
  fields alone and returns the owned Intent. The code does so whenever its presence check
  passes (\<open>add_parameter_appends\<close>), and does not on an owned Intent that is
  all-default: an all-default message is falsy, \<^verbatim>\<open>_check_intent_exist\<close> tests
  \<^verbatim>\<open>not self.proto_obj\<close>, and so the call raises
  \<^verbatim>\<open>ValueError("There is no proto_obj! Create or load one to continue.")\<close> although the
  builder owns the Intent that \<^verbatim>\<open>load_intent\<close> gave it. After
  \<^verbatim>\<open>load_intent(types.Intent())\<close> the call
  \<^verbatim>\<open>add_parameter("city", "@sys.geo-city")\<close> ends in that error and appends nothing.
\<close>

theorem add_parameter_rejects_owned_intent:
  "proto_obj (snd (load_intent default_intent init)) = Some default_intent \<and>
   add_parameter ''city'' ''@sys.geo-city'' False False (snd (load_intent default_intent init)) =
     (Inl (ValueError ''There is no proto_obj! Create or load one to continue.''),
      snd (load_intent default_intent init))"
  by (simp add: add_parameter_def check_intent_exist_def get_proto_obj_def load_intent_def
      intent_bool_def default_intent_def no_proto_obj_def)

subsection \<open>add_training_phrase\<close>

text \<open>
  Claim C1 says that for every owned Intent, lists of strings \<^verbatim>\<open>phrase\<close> and
  \<^verbatim>\<open>annotations\<close> with \<^verbatim>\<open>annotations\<close> not the longer, and every
  \<^verbatim>\<open>repeat_count\<close>, \<^verbatim>\<open>add_training_phrase\<close> builds the Parts in order, appends
  the new TrainingPhrase to the end of the training phrases and returns the owned Intent.
  The code does so whenever its presence check passes and the 32-bit field can hold
  \<^verbatim>\<open>repeat_count\<close> (\<open>add_training_phrase_appends\<close>), and does not on an owned
  Intent that is all-default: an all-default message is falsy, \<^verbatim>\<open>_check_intent_exist\<close> tests
  \<^verbatim>\<open>not self.proto_obj\<close>, and so the call raises
  \<^verbatim>\<open>ValueError("There is no proto_obj! Create or load one to continue.")\<close> although the
  builder owns the Intent that \<^verbatim>\<open>load_intent\<close> gave it. After
  \<^verbatim>\<open>load_intent(types.Intent())\<close> the call
  \<^verbatim>\<open>add_training_phrase(["a","b","c"], ["x"])\<close> ends in that error: no training
  phrase is appended and the lists are as they were.
\<close>

theorem add_training_phrase_rejects_owned_intent:
  "proto_obj (snd (load_intent default_intent init)) = Some default_intent \<and>
   add_training_phrase 0 1 default_repeat_count (snd (load_intent default_intent init))
       (empty_store(0 := [PyStr ''a'', PyStr ''b'', PyStr ''c''], 1 := [PyStr ''x''])) =
     (Inl (ValueError ''There is no proto_obj! Create or load one to continue.''),
      snd (load_intent default_intent init),
      empty_store(0 := [PyStr ''a'', PyStr ''b'', PyStr ''c''], 1 := [PyStr ''x'']))"
  by (simp add: add_training_phrase_def check_intent_exist_def get_proto_obj_def load_intent_def
      intent_bool_def default_intent_def no_proto_obj_def)

text \<open>
  Claim C4 says that for every owned Intent a call of \<^verbatim>\<open>add_training_phrase\<close> with
  \<^verbatim>\<open>annotations\<close> strictly longer than \<^verbatim>\<open>phrase\<close> raises the LengthError and
  leaves everything as it was. The code raises its \<^verbatim>\<open>IndexError\<close> there whenever
  the presence check passes, and always leaves everything as it was
  (\<open>add_training_phrase_length_error\<close>). On an owned Intent that is all-default it
  raises another error: an all-default message is falsy, \<^verbatim>\<open>_check_intent_exist\<close> tests
  \<^verbatim>\<open>not self.proto_obj\<close>, and so the call raises
  \<^verbatim>\<open>ValueError("There is no proto_obj! Create or load one to continue.")\<close> although the
  builder owns the Intent that \<^verbatim>\<open>load_intent\<close> gave it,
  before the length test is reached. After \<^verbatim>\<open>load_intent(types.Intent())\<close> the call
  \<^verbatim>\<open>add_training_phrase(["a"], ["x","y"])\<close> ends in that \<^verbatim>\<open>ValueError\<close>,
  not in the \<^verbatim>\<open>IndexError\<close>.
\<close>

theorem longer_annotations_on_owned_intent:
  "proto_obj (snd (load_intent default_intent init)) = Some default_intent \<and>
   length [PyStr ''x'', PyStr ''y''] > length [PyStr ''a''] \<and>
   add_training_phrase 0 1 1 (snd (load_intent default_intent init))
       (empty_store(0 := [PyStr ''a''], 1 := [PyStr ''x'', PyStr ''y''])) =
     (Inl (ValueError ''There is no proto_obj! Create or load one to continue.''),
      snd (load_intent default_intent init),
      empty_store(0 := [PyStr ''a''], 1 := [PyStr ''x'', PyStr ''y''])) \<and>
   ValueError ''There is no proto_obj! Create or load one to continue.'' \<noteq>
     IndexError ''Length of annotations list is more than phrase list!''"
  by (simp add: add_training_phrase_def check_intent_exist_def get_proto_obj_def load_intent_def
      intent_bool_def default_intent_def no_proto_obj_def)

text \<open>
  Claim C7: for every successful call of \<^verbatim>\<open>add_training_phrase\<close> with
  \<^verbatim>\<open>annotations\<close> shorter than \<^verbatim>\<open>phrase\<close>, the caller's
  \<^verbatim>\<open>annotations\<close> list is changed in place: afterwards it is its old content
  followed by empty strings up to exactly the length of \<^verbatim>\<open>phrase\<close>. No other
  list of the caller changes; \<^verbatim>\<open>phrase\<close> in particular is as before.
\<close>

theorem add_training_phrase_pads_annotations:
  assumes "add_training_phrase phrase annotations rc b s = (Inr obj', b', s')"
    and "length (s annotations) < length (s phrase)"
  shows "s' annotations =
      s annotations @ replicate (length (s phrase) - length (s annotations)) (PyStr []) \<and>
    length (s' annotations) = length (s phrase) \<and>
    (\<forall>a. a \<noteq> annotations \<longrightarrow> s' a = s a) \<and>
    s' phrase = s phrase"
proof -
  have s': "s' = s(annotations := s annotations @
            replicate (length (s phrase) - length (s annotations)) (PyStr []))"
    by (rule add_training_phrase_store [OF assms(1)])
  have "phrase \<noteq> annotations" using assms(2) by auto
  then show ?thesis using assms(2) by (simp add: s')
qed

theorem add_training_phrase_pads_annotations_witness:
  "(snd (snd (add_training_phrase 0 1 1 \<lparr>proto_obj = Some (default_intent\<lparr>display_name := ''buy''\<rparr>)\<rparr>
       (empty_store(0 := [PyStr ''a ticket to '', PyStr ''LAX'', PyStr '' please''],
                    1 := [PyStr [], PyStr ''arrival_city''])))))
     1 = [PyStr [], PyStr ''arrival_city'', PyStr []] \<and>
   (snd (snd (add_training_phrase 0 1 1 \<lparr>proto_obj = Some (default_intent\<lparr>display_name := ''buy''\<rparr>)\<rparr>
       (empty_store(0 := [PyStr ''a ticket to '', PyStr ''LAX'', PyStr '' please''],
                    1 := [PyStr [], PyStr ''arrival_city''])))))
     0 = [PyStr ''a ticket to '', PyStr ''LAX'', PyStr '' please'']"
proof -
  let ?b = "\<lparr>proto_obj = Some (default_intent\<lparr>display_name := ''buy''\<rparr>)\<rparr>"
  let ?s = "empty_store(0 := [PyStr ''a ticket to '', PyStr ''LAX'', PyStr '' please''],
                        1 := [PyStr [], PyStr ''arrival_city''])"
  have own: "proto_obj ?b = Some (default_intent\<lparr>display_name := ''buy''\<rparr>)" by simp
  have tr: "intent_bool (default_intent\<lparr>display_name := ''buy''\<rparr>)" by (simp add: intent_bool_def)
  have ph: "?s 0 = map PyStr [''a ticket to '', ''LAX'', '' please'']" by simp
  have an: "?s 1 = map PyStr [[], ''arrival_city'']" by simp
  have len: "length [[], ''arrival_city''] \<le> length [''a ticket to '', ''LAX'', '' please'']"
    by simp
  have rc: "int32 1" by (simp add: int32_def)
  obtain obj' b' s' where run: "add_training_phrase 0 1 1 ?b ?s = (Inr obj', b', s')"
    using add_training_phrase_ok [OF own tr ph an len rc] by blast
  have shorter: "length (?s 1) < length (?s 0)" by simp
  show ?thesis
    using add_training_phrase_pads_annotations [OF run shorter] run by simp
qed

subsection \<open>add_label\<close>

text \<open>
  Claim C6 says that for every owned Intent \<^verbatim>\<open>add_label\<close> is a no-op on a falsy
  argument, merges a sequence of strings or a mapping into the labels, raises on any
  other argument and otherwise returns the owned Intent. The code does so whenever its
  presence check passes (\<open>add_label_merges\<close>), and does not on an owned Intent that
  is all-default: an all-default message is falsy, \<^verbatim>\<open>_check_intent_exist\<close> tests
  \<^verbatim>\<open>not self.proto_obj\<close>, and so the call raises
  \<^verbatim>\<open>ValueError("There is no proto_obj! Create or load one to continue.")\<close> although the
  builder owns the Intent that \<^verbatim>\<open>load_intent\<close> gave it. After
  \<^verbatim>\<open>load_intent(types.Intent())\<close> the call \<^verbatim>\<open>add_label(["vip","urgent"])\<close>
  ends in that error and merges nothing.
\<close>

theorem add_label_rejects_owned_intent:
  "proto_obj (snd (load_intent default_intent init)) = Some default_intent \<and>
   add_label (LabelsList [''vip'', ''urgent'']) (snd (load_intent default_intent init)) =
     (Inl (ValueError ''There is no proto_obj! Create or load one to continue.''),
      snd (load_intent default_intent init))"
  by (simp add: add_label_def check_intent_exist_def get_proto_obj_def load_intent_def
      intent_bool_def default_intent_def no_proto_obj_def)

subsection \<open>The cross-reference validator\<close>

text \<open>
  Claim C3: for every owned Intent, the cross-reference validator works on the set of
  the non-empty parameter ids that occur in Parts of the training phrases and on the
  set of the ids of the declared Parameters. It raises the dangling-reference error
  exactly when some referenced id is not declared, and completes without error otherwise,
  in whatever order the loop visits the referenced ids. The error identifies a missing
  id: its message is \<^verbatim>\<open>parameter_id <id> does not exist in parameters.Please add it
  using add_parameter method to continue.\<close> for an id that is referenced and not declared,
  and the messages for two different ids differ. With one Part annotated
  \<^verbatim>\<open>"city"\<close> and no declared Parameter it raises with the message for
  \<^verbatim>\<open>"city"\<close>; after \<^verbatim>\<open>add_parameter("city", ...)\<close> it passes.
\<close>

theorem parameter_checking_dangling:
  assumes "proto_obj b = Some obj" and "\<And>xs. set (iter xs) = set xs"
  shows "(parameter_checking iter b = Inr () \<longleftrightarrow> referenced_ids obj \<subseteq> declared_ids obj) \<and>
    (\<not> referenced_ids obj \<subseteq> declared_ids obj \<longrightarrow>
       (\<exists>p \<in> referenced_ids obj - declared_ids obj.
          parameter_checking iter b =
            Inl (Exception (''parameter_id '' @ p @
              '' does not exist in parameters.Please add it using add_parameter method to continue.'')))) \<and>
    (\<forall>p q. dangling p = dangling q \<longrightarrow> p = q) \<and>
    (training_phrases obj = [\<lparr>parts = [\<lparr>part_text = t, parameter_id = ''city''\<rparr>],
                               repeat_count = n\<rparr>] \<and> parameters obj = [] \<longrightarrow>
       parameter_checking iter b =
         Inl (Exception
           ''parameter_id city does not exist in parameters.Please add it using add_parameter method to continue.'') \<and>
       parameter_checking iter (snd (add_parameter ''city'' etype lst red b)) = Inr ())"
proof -
  have pass: "parameter_checking iter b = Inr ()" if "referenced_ids obj \<subseteq> declared_ids obj"
    using parameter_checking_pass [OF assms that] .
  have fail: "\<exists>p \<in> referenced_ids obj - declared_ids obj. parameter_checking iter b = Inl (dangling p)"
    if "\<not> referenced_ids obj \<subseteq> declared_ids obj"
    using parameter_checking_fail [OF assms that] .
  have iff: "parameter_checking iter b = Inr () \<longleftrightarrow> referenced_ids obj \<subseteq> declared_ids obj"
    using pass fail by fastforce
  have message: "\<exists>p \<in> referenced_ids obj - declared_ids obj.
          parameter_checking iter b =
            Inl (Exception (''parameter_id '' @ p @
              '' does not exist in parameters.Please add it using add_parameter method to continue.''))"
    if "\<not> referenced_ids obj \<subseteq> declared_ids obj"
    using fail [OF that] by (simp add: dangling_def)
  have names: "\<forall>p q. dangling p = dangling q \<longrightarrow> p = q"
    by (simp add: dangling_def)
  have city: "parameter_checking iter b =
         Inl (Exception
           ''parameter_id city does not exist in parameters.Please add it using add_parameter method to continue.'') \<and>
       parameter_checking iter (snd (add_parameter ''city'' etype lst red b)) = Inr ()"
    if tps: "training_phrases obj = [\<lparr>parts = [\<lparr>part_text = t, parameter_id = ''city''\<rparr>],
                               repeat_count = n\<rparr>]" and ps: "parameters obj = []"
  proof -
    have ref: "referenced_ids obj = {''city''}"
      by (simp add: referenced_ids_def tps)
    have decl: "declared_ids obj = {}"
      by (simp add: declared_ids_def ps)
    have "\<not> referenced_ids obj \<subseteq> declared_ids obj" by (simp add: ref decl)
    from fail [OF this] have "parameter_checking iter b = Inl (dangling ''city'')"
      by (simp add: ref decl)
    then have before: "parameter_checking iter b =
         Inl (Exception
           ''parameter_id city does not exist in parameters.Please add it using add_parameter method to continue.'')"
      by (simp add: dangling_def)
    let ?obj' = "obj\<lparr>parameters := parameters obj @
        [\<lparr>param_id = ''city'', entity_type = etype, is_list = lst, redact = red\<rparr>]\<rparr>"
    have tr: "intent_bool obj" by (simp add: intent_bool_def tps)
    have b': "snd (add_parameter ''city'' etype lst red b) = b\<lparr>proto_obj := Some ?obj'\<rparr>"
      by (simp add: add_parameter_ok [OF assms(1) tr])
    have own': "proto_obj (b\<lparr>proto_obj := Some ?obj'\<rparr>) = Some ?obj'" by simp
    have "referenced_ids ?obj' \<subseteq> declared_ids ?obj'"
      by (simp add: referenced_ids_def declared_ids_def tps ps)
    from parameter_checking_pass [OF own' assms(2) this]
    have after: "parameter_checking iter (snd (add_parameter ''city'' etype lst red b)) = Inr ()"
      by (simp add: b')
    show ?thesis using before after by simp
  qed
  show ?thesis using iff message names city by blast
qed

theorem parameter_checking_dangling_witness:
  "parameter_checking rev
     \<lparr>proto_obj = Some (default_intent\<lparr>training_phrases :=
        [\<lparr>parts = [\<lparr>part_text = ''Paris'', parameter_id = ''city''\<rparr>], repeat_count = 1\<rparr>]\<rparr>)\<rparr> =
     Inl (Exception
       ''parameter_id city does not exist in parameters.Please add it using add_parameter method to continue.'') \<and>
   parameter_checking rev (snd (add_parameter ''city'' ''@sys.geo-city'' False False
     \<lparr>proto_obj = Some (default_intent\<lparr>training_phrases :=
        [\<lparr>parts = [\<lparr>part_text = ''Paris'', parameter_id = ''city''\<rparr>], repeat_count = 1\<rparr>]\<rparr>)\<rparr>)) =
     Inr ()"
proof -
  let ?obj = "default_intent\<lparr>training_phrases :=
        [\<lparr>parts = [\<lparr>part_text = ''Paris'', parameter_id = ''city''\<rparr>], repeat_count = 1\<rparr>]\<rparr>"
  have own: "proto_obj \<lparr>proto_obj = Some ?obj\<rparr> = Some ?obj" by simp
  have order: "\<And>xs::string list. set (rev xs) = set xs" by simp
  have shape: "training_phrases ?obj =
      [\<lparr>parts = [\<lparr>part_text = ''Paris'', parameter_id = ''city''\<rparr>], repeat_count = 1\<rparr>] \<and>
      parameters ?obj = []"
    by (simp add: default_intent_def)
  show ?thesis
    using parameter_checking_dangling [OF own order, of "''Paris''" 1 "''@sys.geo-city''" False False,
        THEN conjunct2, THEN conjunct2, THEN conjunct2] shape
    by blast
qed

subsection \<open>build_intent\<close>

text \<open>
  Claim C10, as amended: for every display name and every non-empty list of mappings
  that each have a \<^verbatim>\<open>"text"\<close> key, \<^verbatim>\<open>build_intent\<close> returns the dictionary
  \<^verbatim>\<open>{"display_name": display_name, "training_phrases": {"text": t}}\<close> where
  \<^verbatim>\<open>t\<close> is the \<^verbatim>\<open>"text"\<close> value of the last element: the comprehension
  writes one key over and over, so the earlier elements are lost. For every non-empty
  list of plain strings it fails (with a \<^verbatim>\<open>TypeError\<close>) instead of returning.
\<close>

theorem build_intent_keeps_last:
  "(phrases \<noteq> [] \<and> (\<forall>row \<in> set phrases. row_text row \<noteq> None) \<longrightarrow>
      (\<exists>t. row_text (last phrases) = Some t \<and>
           build_intent dname phrases =
             Inr [(''display_name'', Scalar dname), (''training_phrases'', Dict [(''text'', t)])])) \<and>
   (phrases \<noteq> [] \<and> (\<forall>row \<in> set phrases. is_plain_string row) \<longrightarrow>
      build_intent dname phrases = Inl (TypeError ''string indices must be integers''))"
proof -
  have maps: "\<exists>t. row_text (last phrases) = Some t \<and>
           build_intent dname phrases =
             Inr [(''display_name'', Scalar dname), (''training_phrases'', Dict [(''text'', t)])]"
    if ne: "phrases \<noteq> []" and ok: "\<forall>row \<in> set phrases. row_text row \<noteq> None"
  proof -
    obtain t where "row_text (last phrases) = Some t"
      and "tps_comprehension phrases [] = Inr [(''text'', t)]"
      using tps_comprehension_maps [OF ok _ ne, of "[]"] by auto
    then show ?thesis by (simp add: build_intent_def)
  qed
  have strings: "build_intent dname phrases = Inl (TypeError ''string indices must be integers'')"
    if "phrases \<noteq> []" "\<forall>row \<in> set phrases. is_plain_string row"
  proof -
    have "is_plain_string (hd phrases)" using that by simp
    from tps_comprehension_strings [OF that(1) this] show ?thesis
      by (simp add: build_intent_def)
  qed
  show ?thesis using maps strings by blast
qed

theorem build_intent_keeps_last_witness:
  "build_intent ''greet'' [RowMap [(''text'', ''hi'')], RowMap [(''lang'', ''en''), (''text'', ''hello'')]] =
     Inr [(''display_name'', Scalar ''greet''),
          (''training_phrases'', Dict [(''text'', ''hello'')])] \<and>
   build_intent ''greet'' ([RowStr ''hi'', RowStr ''hello''] :: string row list) =
     Inl (TypeError ''string indices must be integers'')"
proof -
  let ?maps = "[RowMap [(''text'', ''hi'')], RowMap [(''lang'', ''en''), (''text'', ''hello'')]]"
  let ?strs = "[RowStr ''hi'', RowStr ''hello''] :: string row list"
  have m: "?maps \<noteq> [] \<and> (\<forall>row \<in> set ?maps. row_text row \<noteq> None)" by simp
  have s: "?strs \<noteq> [] \<and> (\<forall>row \<in> set ?strs. is_plain_string row)" by simp
  have "\<exists>t. row_text (last ?maps) = Some t \<and>
           build_intent ''greet'' ?maps =
             Inr [(''display_name'', Scalar ''greet''), (''training_phrases'', Dict [(''text'', t)])]"
    using build_intent_keeps_last [of ?maps "''greet''", THEN conjunct1] m by blast
  then have first: "build_intent ''greet'' ?maps =
     Inr [(''display_name'', Scalar ''greet''), (''training_phrases'', Dict [(''text'', ''hello'')])]"
    by auto
  have second: "build_intent ''greet'' ?strs = Inl (TypeError ''string indices must be integers'')"
    using build_intent_keeps_last [of ?strs "''greet''", THEN conjunct2] s by blast
  show ?thesis using first second by simp
qed

theorem build_intent_empty_counterexample:
  "build_intent ''greet'' ([] :: string row list) =
     Inr [(''display_name'', Scalar ''greet''), (''training_phrases'', Dict [])]"
  by (simp add: build_intent_def)

end
